theory Spec2Isabelle
  imports Main "HOL-Library.Sublist"
begin

section \<open>Data model\<close>

text \<open>
  A message object as the client holds it in the \<open>messages\<close> state of ChatWindow.jsx.
  The fields are the ones written by \<open>handleSendMessage\<close> for the optimistic
  placeholder; the server's messages carry the same fields. \<open>reply_to\<close> is \<open>null\<close>
  (\<open>None\<close>) or an identifier.
\<close>

record message =
  message_id :: string
  sender :: string
  recipient :: string
  content :: string
  timestamp :: string
  status :: string
  reply_to :: "string option"
  edited :: bool

text \<open>
  A chat summary as ChatList and ChatDashboard read it. \<open>chat_id\<close> is the field \<open>id\<close>
  (absent on some summaries: the list keys on \<open>chat.id || chat.other_user_email\<close>).
\<close>

record chat =
  chat_id :: "string option"
  other_user_email :: string
  other_user_username :: string
  other_user_avatar :: "string option"
  last_message :: "string option"
  last_message_time :: string
  unread_count :: nat
  is_online :: bool

record user =
  email :: string

definition BOT_EMAIL :: string where
  "BOT_EMAIL = ''bot@whatsease.com''"

section \<open>JavaScript string helpers\<close>

text \<open>
  A string is a list of code units below 256 (the Latin-1 range of JavaScript's
  strings). \<open>is_ws\<close> is the white space and the line terminators that
  \<open>String.prototype.trim\<close> strips in that range: tab, line feed, vertical tab, form
  feed, carriage return, space and the no-break space.
\<close>

definition is_ws :: "char \<Rightarrow> bool" where
  "is_ws c = (c = CHR 0x09 \<or> c = CHR 0x0A \<or> c = CHR 0x0B \<or> c = CHR 0x0C
              \<or> c = CHR 0x0D \<or> c = CHR 0x20 \<or> c = CHR 0xA0)"

definition trim :: "string \<Rightarrow> string" where
  "trim s = rev (dropWhile is_ws (rev (dropWhile is_ws s)))"

text \<open>Decimal rendering of a non-negative integer, as a template literal does.\<close>

definition digit_char :: "nat \<Rightarrow> char" where
  "digit_char d = ''0123456789'' ! d"

function show_nat :: "nat \<Rightarrow> string" where
  "show_nat n = (if n < 10 then [digit_char n]
                 else show_nat (n div 10) @ [digit_char (n mod 10)])"
  by pat_completeness auto
termination
  by (relation "measure id") auto

declare show_nat.simps [simp del]

text \<open>\<open>x || null\<close> on a string that may be missing: the empty string is falsy too.\<close>

definition or_null :: "string option \<Rightarrow> string option" where
  "or_null x = (case x of None \<Rightarrow> None | Some r \<Rightarrow> if r = [] then None else Some r)"

section \<open>ChatWindow.jsx\<close>

text \<open>The component's state hooks.\<close>

record chat_window =
  messages :: "message list"
  loading :: bool
  error :: "string option"
  replyTo :: "message option"
  isTyping :: bool
  isSending :: bool

subsection \<open>loadMessages\<close>

text \<open>
  The outcome of \<open>apiService.getConversation\<close>: the promise rejects, or it resolves to a
  response. \<open>None\<close> is a falsy response; \<open>Some None\<close> a response without (or with a
  falsy) \<open>messages\<close> field; an array, also the empty one, is truthy.
\<close>

datatype conversation_result =
  Rejected
| Resolved "message list option option"

definition loadMessages :: "conversation_result \<Rightarrow> chat_window \<Rightarrow> chat_window" where
  "loadMessages r s =
     (let s1 = s\<lparr>loading := True, error := None\<rparr>;
          s2 = (case r of
                  Resolved (Some (Some ms)) \<Rightarrow> s1\<lparr>messages := rev ms\<rparr>
                | Resolved _ \<Rightarrow> s1\<lparr>messages := []\<rparr>
                | Rejected \<Rightarrow> s1\<lparr>error := Some ''Failed to load messages'', messages := []\<rparr>)
      in s2\<lparr>loading := False\<rparr>)"

subsection \<open>Calls into the WebSocket context\<close>

text \<open>
  The chat window uses two functions of the context: \<open>sendChatMessage(recipient, content,
  replyTo)\<close> and \<open>markAsRead(messageId, senderEmail)\<close>. A handler returns the calls it
  makes, in order.
\<close>

datatype ctx_call =
  SendChatMessage string string "string option"
| MarkAsRead string string

subsection \<open>The push handler (the effect registering \<open>addMessageHandler\<close>)\<close>

text \<open>
  The \<open>data\<close> field of a push event: a message object, a typing notice
  \<open>{sender, is_typing}\<close>, a presence notice \<open>{user_email, is_online}\<close>, or an
  object with none of the fields the handlers read.
\<close>

datatype ws_payload =
  MessageData message
| TypingData string bool
| StatusData string bool
| OtherData

text \<open>
  A parsed push event. \<open>ws_data = None\<close> is a missing (falsy) \<open>data\<close> field; then the
  handler reads the message fields off the event itself (\<open>wsMessage.data || wsMessage\<close>):
  \<open>ws_inline\<close> holds them when the event carries them, and is \<open>None\<close> when the event has
  no \<open>sender\<close>/\<open>recipient\<close> of its own.
\<close>

record ws_message =
  ws_type :: string
  ws_data :: "ws_payload option"
  ws_inline :: "message option"

text \<open>
  \<open>messageData\<close> of the handler, as far as its \<open>sender\<close>, \<open>recipient\<close> and
  \<open>message_id\<close> are read: \<open>None\<close> when \<open>recipient\<close> is undefined, so that neither
  disjunct of the conversation test can hold.
\<close>

definition messageData :: "ws_message \<Rightarrow> message option" where
  "messageData w =
     (case ws_data w of
        Some (MessageData m) \<Rightarrow> Some m
      | Some _ \<Rightarrow> None
      | None \<Rightarrow> ws_inline w)"

datatype js_error = TypeError

text \<open>
  The handler. \<open>markAsRead_given\<close> is the truthiness of the context's \<open>markAsRead\<close>.
  In the typing branch \<open>wsMessage.data.sender\<close> throws when \<open>data\<close> is missing; a
  message object there has no \<open>is_typing\<close>, and \<open>setIsTyping(undefined)\<close> shows as
  not typing.
\<close>

definition messageHandler ::
  "chat \<Rightarrow> user \<Rightarrow> bool \<Rightarrow> ws_message \<Rightarrow> chat_window \<Rightarrow> js_error + (chat_window \<times> ctx_call list)" where
  "messageHandler c currentUser markAsRead_given wsMessage s =
     (if ws_type wsMessage = ''new_message'' \<or> ws_type wsMessage = ''message'' then
        (case messageData wsMessage of
           None \<Rightarrow> Inr (s, [])
         | Some md \<Rightarrow>
             if (sender md = other_user_email c \<and> recipient md = email currentUser)
                \<or> (sender md = email currentUser \<and> recipient md = other_user_email c)
             then
               Inr (s\<lparr>messages :=
                        (if \<exists>m \<in> set (messages s). message_id m = message_id md
                         then messages s else messages s @ [md])\<rparr>,
                    if sender md = other_user_email c \<and> markAsRead_given
                    then [MarkAsRead (message_id md) (other_user_email c)] else [])
             else Inr (s, []))
      else if ws_type wsMessage = ''typing'' then
        (case ws_data wsMessage of
           None \<Rightarrow> Inl TypeError
         | Some (TypingData who typing) \<Rightarrow>
             if who = other_user_email c then Inr (s\<lparr>isTyping := typing\<rparr>, []) else Inr (s, [])
         | Some (MessageData m) \<Rightarrow>
             if sender m = other_user_email c then Inr (s\<lparr>isTyping := False\<rparr>, []) else Inr (s, [])
         | Some _ \<Rightarrow> Inr (s, []))
      else Inr (s, []))"

text \<open>
  \<open>ws.onmessage\<close> of WebSocketContext.jsx calls every registered handler inside
  \<open>try/catch\<close>: a handler that throws leaves the state as it was.
\<close>

definition onPush ::
  "chat \<Rightarrow> user \<Rightarrow> bool \<Rightarrow> ws_message \<Rightarrow> chat_window \<Rightarrow> chat_window \<times> ctx_call list" where
  "onPush c currentUser markAsRead_given wsMessage s =
     (case messageHandler c currentUser markAsRead_given wsMessage s of
        Inl _ \<Rightarrow> (s, [])
      | Inr r \<Rightarrow> r)"

subsection \<open>handleSendMessage\<close>

record message_data =
  md_recipient :: string
  md_content :: string
  md_reply_to :: "string option"

datatype api_call =
  SendBotMessage message_data
| SendMessage message_data

text \<open>
  What the continuation after \<open>await\<close> closes over: the placeholder's identifier, the
  trimmed content and the reply identifier, and the durable call that is in flight.
\<close>

record pending_send =
  temp_id :: string
  sent_content :: string
  sent_reply :: "string option"
  request :: api_call

text \<open>The template literal \<open>`temp-${Date.now()}`\<close>.\<close>

definition tempId :: "nat \<Rightarrow> string" where
  "tempId now = ''temp-'' @ show_nat now"

definition optimisticMessage ::
  "chat \<Rightarrow> user \<Rightarrow> nat \<Rightarrow> string \<Rightarrow> string \<Rightarrow> string option \<Rightarrow> message" where
  "optimisticMessage c currentUser now now_iso content' replyToId =
     \<lparr>message_id = tempId now,
      sender = email currentUser,
      recipient = other_user_email c,
      content = trim content',
      timestamp = now_iso,
      status = ''Sending'',
      reply_to = or_null replyToId,
      edited = False\<rparr>"

text \<open>
  The synchronous part, up to the \<open>await\<close>. \<open>content'\<close> is the \<open>content\<close> argument,
  a string (MessageInput passes the trimmed text); \<open>now\<close> is \<open>Date.now()\<close>, \<open>now_iso\<close>
  is \<open>new Date().toISOString()\<close>. The result is the new state and the durable call, if
  one was issued.
\<close>

definition handleSendMessage ::
  "chat \<Rightarrow> user \<Rightarrow> nat \<Rightarrow> string \<Rightarrow> string \<Rightarrow> string option \<Rightarrow> chat_window
     \<Rightarrow> chat_window \<times> pending_send option" where
  "handleSendMessage c currentUser now now_iso content' replyToId s =
     (if content' = [] \<or> trim content' = [] \<or> isSending s then (s, None)
      else
        let om = optimisticMessage c currentUser now now_iso content' replyToId;
            md = \<lparr>md_recipient = other_user_email c, md_content = trim content',
                  md_reply_to = or_null replyToId\<rparr>;
            isBotMessage = (other_user_email c = ''bot@whatsease.com'')
        in (s\<lparr>isSending := True, error := None,
               messages := messages s @ [om], replyTo := None\<rparr>,
            Some \<lparr>temp_id = message_id om, sent_content = trim content',
                  sent_reply = replyToId,
                  request = (if isBotMessage then SendBotMessage md else SendMessage md)\<rparr>))"

text \<open>
  The durable call returned \<open>newMessage\<close>. \<open>connected\<close> is \<open>isConnected &&
  sendChatMessage\<close>.
\<close>

definition sendResolved ::
  "chat \<Rightarrow> bool \<Rightarrow> pending_send \<Rightarrow> message \<Rightarrow> chat_window \<Rightarrow> chat_window \<times> ctx_call list" where
  "sendResolved c connected p newMessage s =
     (s\<lparr>messages := map (\<lambda>msg. if message_id msg = temp_id p then newMessage else msg) (messages s),
        isSending := False\<rparr>,
      if connected \<and> other_user_email c \<noteq> ''bot@whatsease.com''
      then [SendChatMessage (other_user_email c) (sent_content p) (sent_reply p)] else [])"

text \<open>The durable call failed: the \<open>catch\<close> branch, then \<open>finally\<close>. No call is made.\<close>

definition sendRejected :: "pending_send \<Rightarrow> chat_window \<Rightarrow> chat_window \<times> api_call list \<times> ctx_call list" where
  "sendRejected p s =
     (s\<lparr>error := Some ''Failed to send message. Please try again.'',
        messages := filter (\<lambda>msg. message_id msg \<noteq> temp_id p) (messages s),
        isSending := False\<rparr>, [], [])"

text \<open>The displayed entries that carry a given identifier.\<close>

definition entries_with_id :: "string \<Rightarrow> message list \<Rightarrow> message list" where
  "entries_with_id mid ms = filter (\<lambda>m. message_id m = mid) ms"

definition ids :: "message list \<Rightarrow> string set" where
  "ids ms = message_id ` set ms"


section \<open>MessageInput.jsx\<close>

record message_input =
  draft :: string
  typing :: bool

text \<open>
  \<open>handleSend\<close>: \<open>draft\<close> is the \<open>message\<close> state (the text of the textarea). The
  result is the new state and the arguments of the \<open>onSend\<close> call, if it is made.
\<close>

definition handleSend ::
  "bool \<Rightarrow> message option \<Rightarrow> message_input \<Rightarrow> message_input \<times> (string \<times> string option) option" where
  "handleSend disabled reply s =
     (let trimmedMessage = trim (draft s)
      in if trimmedMessage = [] \<or> disabled then (s, None)
         else (s\<lparr>draft := [], typing := False\<rparr>,
               Some (trimmedMessage, map_option message_id reply)))"

text \<open>
  The wiring of ChatWindow's JSX: MessageInput gets \<open>onSend = handleSendMessage\<close>,
  \<open>replyTo = replyTo\<close> and \<open>disabled = isSending\<close>. \<open>submit\<close> is one press of the send
  button (or of Enter) on the pair of the two components' states.
\<close>

definition submit ::
  "chat \<Rightarrow> user \<Rightarrow> nat \<Rightarrow> string \<Rightarrow> message_input \<times> chat_window
     \<Rightarrow> (message_input \<times> chat_window) \<times> pending_send option" where
  "submit c currentUser now now_iso st =
     (case handleSend (isSending (snd st)) (replyTo (snd st)) (fst st) of
        (inp, None) \<Rightarrow> ((inp, snd st), None)
      | (inp, Some (text, rid)) \<Rightarrow>
          (case handleSendMessage c currentUser now now_iso text rid (snd st) of
             (win, p) \<Rightarrow> ((inp, win), p)))"

section \<open>WebSocketContext.jsx\<close>

subsection \<open>Outgoing frames\<close>

datatype out_data =
  NewMessageOut string string "string option"
| TypingOut string bool
| MarkDeliveredOut string string
| MarkReadOut string string
| PingOut

record frame =
  f_type :: string
  f_data :: out_data
  f_timestamp :: string

text \<open>
  \<open>sendMessage(type, data)\<close>: the frames handed to \<open>socket.send\<close>. \<open>socket_open\<close> is
  \<open>socket && socket.readyState === WebSocket.OPEN\<close>; otherwise an error is logged and
  nothing is sent.
\<close>

definition sendMessage :: "bool \<Rightarrow> string \<Rightarrow> string \<Rightarrow> out_data \<Rightarrow> frame list" where
  "sendMessage socket_open now_iso type' data =
     (if socket_open then [\<lparr>f_type = type', f_data = data, f_timestamp = now_iso\<rparr>] else [])"

definition sendChatMessage :: "bool \<Rightarrow> string \<Rightarrow> string \<Rightarrow> string \<Rightarrow> string option \<Rightarrow> frame list" where
  "sendChatMessage socket_open now_iso rcpt text reply =
     sendMessage socket_open now_iso ''new_message'' (NewMessageOut rcpt text reply)"

definition sendTypingIndicator :: "bool \<Rightarrow> string \<Rightarrow> string \<Rightarrow> bool \<Rightarrow> frame list" where
  "sendTypingIndicator socket_open now_iso rcpt t =
     sendMessage socket_open now_iso ''typing'' (TypingOut rcpt t)"

definition markAsDelivered :: "bool \<Rightarrow> string \<Rightarrow> string \<Rightarrow> string \<Rightarrow> frame list" where
  "markAsDelivered socket_open now_iso messageId senderEmail =
     sendMessage socket_open now_iso ''mark_delivered'' (MarkDeliveredOut messageId senderEmail)"

definition markAsRead :: "bool \<Rightarrow> string \<Rightarrow> string \<Rightarrow> string \<Rightarrow> frame list" where
  "markAsRead socket_open now_iso messageId senderEmail =
     sendMessage socket_open now_iso ''mark_read'' (MarkReadOut messageId senderEmail)"

definition sendPing :: "bool \<Rightarrow> string \<Rightarrow> frame list" where
  "sendPing socket_open now_iso = sendMessage socket_open now_iso ''ping'' PingOut"

text \<open>The frames that the chat window's calls into the context put on the socket.\<close>

fun perform :: "bool \<Rightarrow> string \<Rightarrow> ctx_call \<Rightarrow> frame list" where
  "perform socket_open now_iso (SendChatMessage rcpt text reply) =
     sendChatMessage socket_open now_iso rcpt text reply"
| "perform socket_open now_iso (MarkAsRead messageId senderEmail) =
     markAsRead socket_open now_iso messageId senderEmail"

definition frames_of :: "bool \<Rightarrow> string \<Rightarrow> ctx_call list \<Rightarrow> frame list" where
  "frames_of socket_open now_iso calls = concat (map (perform socket_open now_iso) calls)"

subsection \<open>The reconnect state machine\<close>

text \<open>
  The provider's connection state: \<open>isConnected\<close>, the counter
  \<open>reconnectAttemptsRef.current\<close>, the delays of the \<open>setTimeout\<close> timers that are
  pending, and the number of sockets that \<open>connect\<close> created and whose \<open>onclose\<close> has
  not run yet.
\<close>

record ws_provider =
  isConnected :: bool
  reconnectAttempts :: nat
  timers :: "nat list"
  live :: nat

definition maxReconnectAttempts :: nat where
  "maxReconnectAttempts = 5"

text \<open>
  \<open>connect\<close> returns early without a user or without a stored token (\<open>authed\<close> is
  \<open>user && token\<close>); otherwise it creates a socket.
\<close>

definition connect :: "bool \<Rightarrow> ws_provider \<Rightarrow> ws_provider" where
  "connect authed s = (if \<not> authed then s else s\<lparr>live := live s + 1\<rparr>)"

definition onopen :: "ws_provider \<Rightarrow> ws_provider" where
  "onopen s = s\<lparr>isConnected := True, reconnectAttempts := 0\<rparr>"

definition onclose :: "ws_provider \<Rightarrow> ws_provider" where
  "onclose s =
     (let s1 = s\<lparr>isConnected := False, live := live s - 1\<rparr>
      in if reconnectAttempts s1 < maxReconnectAttempts
         then s1\<lparr>timers := timers s1 @ [3000]\<rparr> else s1)"

text \<open>The callback given to \<open>setTimeout\<close> in \<open>onclose\<close>.\<close>

definition reconnectTimeout :: "bool \<Rightarrow> ws_provider \<Rightarrow> ws_provider" where
  "reconnectTimeout authed s = connect authed (s\<lparr>reconnectAttempts := reconnectAttempts s + 1\<rparr>)"

text \<open>
  The events the browser delivers without the user acting: a live socket opens or
  closes, the oldest pending timer fires. An event that cannot occur in a state (no live
  socket, no pending timer) has no successor. The effect's own call of \<open>connect\<close>, on
  mounting the provider (a reload, a navigation that mounts it anew) or on a change of
  the user object, is not among them: it is what a manual retry does.
\<close>

datatype ws_event = Open | Close | TimerFires

fun step :: "bool \<Rightarrow> ws_event \<Rightarrow> ws_provider \<Rightarrow> ws_provider option" where
  "step authed Open s = (if live s = 0 then None else Some (onopen s))"
| "step authed Close s = (if live s = 0 then None else Some (onclose s))"
| "step authed TimerFires s =
     (case timers s of [] \<Rightarrow> None
      | d # ds \<Rightarrow> Some (reconnectTimeout authed (s\<lparr>timers := ds\<rparr>)))"

fun run :: "bool \<Rightarrow> ws_event list \<Rightarrow> ws_provider \<Rightarrow> ws_provider option" where
  "run authed [] s = Some s"
| "run authed (e # es) s =
     (case step authed e s of None \<Rightarrow> None | Some s' \<Rightarrow> run authed es s')"

text \<open>
  The provider after mounting (or after a reload): the refs and state hooks at their
  initial values, then the effect's \<open>connect()\<close>.
\<close>

definition mounted :: "bool \<Rightarrow> ws_provider" where
  "mounted authed =
     connect authed \<lparr>isConnected = False, reconnectAttempts = 0, timers = [], live = 0\<rparr>"

text \<open>
  What holds of the provider between events as long as \<open>connect\<close> is not called from
  outside the timer: at most one socket is live or one timer pending, a pending timer
  was scheduled below the bound, and every delay is 3000 ms.
\<close>

definition single_connection :: "ws_provider \<Rightarrow> bool" where
  "single_connection s =
     (live s + length (timers s) \<le> 1
      \<and> reconnectAttempts s \<le> maxReconnectAttempts
      \<and> (timers s = [] \<or> reconnectAttempts s < maxReconnectAttempts)
      \<and> set (timers s) \<subseteq> {3000})"

section \<open>ChatList.jsx\<close>

text \<open>
  The chat that \<open>processedChats\<close> fabricates when the server's list has none for the
  automated correspondent. \<open>now_iso\<close> is \<open>new Date().toISOString()\<close>; the greeting
  holds a waving-hand sign, which is outside the range of code units modelled and stands
  here as the four bytes of its UTF-8 encoding.
\<close>

definition defaultBotChat :: "string \<Rightarrow> chat" where
  "defaultBotChat now_iso =
     \<lparr>chat_id = Some ''bot-chat'',
      other_user_email = ''bot@whatsease.com'',
      other_user_username = ''AI Assistant'',
      other_user_avatar = None,
      last_message = Some (''Hello! '' @ [CHR 0xF0, CHR 0x9F, CHR 0x91, CHR 0x8B]
                           @ '' How can I help you today?''),
      last_message_time = now_iso,
      unread_count = 0,
      is_online = True\<rparr>"

definition processedChats :: "string \<Rightarrow> chat list \<Rightarrow> chat list" where
  "processedChats now_iso cs =
     (let botChat = find (\<lambda>c. other_user_email c = ''bot@whatsease.com'') cs;
          regularChats = filter (\<lambda>c. other_user_email c \<noteq> ''bot@whatsease.com'') cs;
          finalBotChat = (case botChat of Some b \<Rightarrow> b | None \<Rightarrow> defaultBotChat now_iso)
      in finalBotChat\<lparr>is_online := True\<rparr> # regularChats)"

text \<open>
  \<open>toLowerCase\<close> on code units below 256 (the letters A to Z, and the accented capitals
  0xC0 to 0xDE without the multiplication sign 0xD7), and \<open>String.prototype.includes\<close>.
\<close>

definition lower_char :: "char \<Rightarrow> char" where
  "lower_char c =
     (if ((65::nat) \<le> of_char c \<and> of_char c \<le> (90::nat))
         \<or> ((192::nat) \<le> of_char c \<and> of_char c \<le> (222::nat) \<and> of_char c \<noteq> (215::nat))
      then char_of (of_char c + (32::nat)) else c)"

definition toLowerCase :: "string \<Rightarrow> string" where
  "toLowerCase s = map lower_char s"

fun str_includes :: "string \<Rightarrow> string \<Rightarrow> bool" where
  "str_includes [] q = (q = [])"
| "str_includes (x # xs) q = (prefix q (x # xs) \<or> str_includes xs q)"

definition matchesSearch :: "string \<Rightarrow> chat \<Rightarrow> bool" where
  "matchesSearch searchQuery c =
     (str_includes (toLowerCase (other_user_username c)) (toLowerCase searchQuery)
      \<or> str_includes (toLowerCase (other_user_email c)) (toLowerCase searchQuery)
      \<or> (case last_message c of
            None \<Rightarrow> False
          | Some l \<Rightarrow> l \<noteq> [] \<and> str_includes (toLowerCase l) (toLowerCase searchQuery)))"

text \<open>The list that ChatList maps to chat items.\<close>

definition filteredChats :: "string \<Rightarrow> string \<Rightarrow> chat list \<Rightarrow> chat list" where
  "filteredChats now_iso searchQuery cs = filter (matchesSearch searchQuery) (processedChats now_iso cs)"

definition bot_entries :: "chat list \<Rightarrow> chat list" where
  "bot_entries cs = filter (\<lambda>c. other_user_email c = BOT_EMAIL) cs"

section \<open>ChatDashboard.jsx\<close>

text \<open>
  \<open>selectedChat\<close>: \<open>null\<close>, a chat, or the object \<open>{is_online: undefined}\<close> that the
  presence handler builds by spreading a \<open>null\<close> selection.
\<close>

datatype selection = Unselected | Selected chat | Malformed

record dashboard =
  chats :: "chat list"
  selectedChat :: selection
  dash_loading :: bool
  searchQuery :: string
  onlineUsers :: "string set"

definition loadChatList :: "chat list option \<Rightarrow> dashboard \<Rightarrow> dashboard" where
  "loadChatList r s =
     (case r of
        Some chatList \<Rightarrow>
          s\<lparr>onlineUsers := set (map other_user_email (filter is_online chatList)),
             chats := chatList, dash_loading := False\<rparr>
      | None \<Rightarrow> s\<lparr>dash_loading := False\<rparr>)"

definition currentOnline :: "dashboard \<Rightarrow> chat \<Rightarrow> chat" where
  "currentOnline s c =
     c\<lparr>is_online := (if other_user_email c = ''bot@whatsease.com'' then True
                      else other_user_email c \<in> onlineUsers s \<or> is_online c)\<rparr>"

definition handleChatSelect :: "chat \<Rightarrow> dashboard \<Rightarrow> dashboard" where
  "handleChatSelect c s = s\<lparr>selectedChat := Selected (currentOnline s c)\<rparr>"

text \<open>The effect on \<open>[userEmail, chats, onlineUsers]\<close>; \<open>userEmail\<close> is the route's parameter.\<close>

definition syncSelected :: "string option \<Rightarrow> dashboard \<Rightarrow> dashboard" where
  "syncSelected userEmail s =
     (case userEmail of
        None \<Rightarrow> s
      | Some e \<Rightarrow>
          if e \<noteq> [] \<and> chats s \<noteq> [] then
            (case find (\<lambda>c. other_user_email c = e) (chats s) of
               Some c \<Rightarrow> s\<lparr>selectedChat := Selected (currentOnline s c)\<rparr>
             | None \<Rightarrow> s)
          else s)"

text \<open>
  The presence handler of the dashboard. Data without \<open>user_email\<close> and \<open>is_online\<close>
  destructures to \<open>undefined\<close>: no chat matches, and only a \<open>null\<close> selection does
  (\<open>selectedChat?.other_user_email === undefined\<close>).
\<close>

definition statusHandler :: "ws_message \<Rightarrow> dashboard \<Rightarrow> dashboard" where
  "statusHandler wsMessage s =
     (if ws_type wsMessage = ''user_status_change'' then
        (case ws_data wsMessage of
           Some (StatusData user_email online) \<Rightarrow>
             s\<lparr>onlineUsers := (if online then insert user_email (onlineUsers s)
                                else onlineUsers s - {user_email}),
                chats := map (\<lambda>c. if other_user_email c = user_email
                                    then c\<lparr>is_online := online\<rparr> else c) (chats s),
                selectedChat := (case selectedChat s of
                                   Selected c \<Rightarrow> if other_user_email c = user_email
                                                  then Selected (c\<lparr>is_online := online\<rparr>)
                                                  else Selected c
                                 | sel \<Rightarrow> sel)\<rparr>
         | _ \<Rightarrow>
             s\<lparr>selectedChat := (case selectedChat s of
                                   Selected c \<Rightarrow> Selected c
                                 | _ \<Rightarrow> Malformed)\<rparr>)
      else s)"

fun statusHandlers :: "ws_message list \<Rightarrow> dashboard \<Rightarrow> dashboard" where
  "statusHandlers [] s = s"
| "statusHandlers (w # ws) s = statusHandlers ws (statusHandler w s)"

section \<open>DateUtils.js\<close>

text \<open>
  A timestamp argument: \<open>null\<close> or \<open>undefined\<close>, a string, a \<open>Date\<close> object (its time
  value in milliseconds, \<open>None\<close> for an invalid date), or an integral number of
  milliseconds.
\<close>

datatype ts_input =
  Missing
| Str string
| DateObj "int option"
| Num int

text \<open>
  What the functions take from the JavaScript engine: the parser of date strings
  (\<open>None\<close> is the invalid date), the \<open>toLocale...String('en-US', options)\<close> renderings
  for the option sets the file uses, the time value of local midnight of a date's day
  (\<open>new Date(y, m, d)\<close> of its local fields) and \<open>getFullYear\<close>.
\<close>

datatype fmt =
  HourMinute12
| ShortMonthDayYear
| ShortMonthDayYearHourMinute12
| WeekdayLong
| WeekdayShort
| LongMonthDay bool
| ShortMonthDay

record engine =
  parse_date :: "string \<Rightarrow> int option"
  toLocale :: "fmt \<Rightarrow> int \<Rightarrow> string"
  local_midnight :: "int \<Rightarrow> int"
  getFullYear :: "int \<Rightarrow> int"

text \<open>\<open>!utcTimestamp\<close>.\<close>

definition falsy :: "ts_input \<Rightarrow> bool" where
  "falsy t = (case t of Missing \<Rightarrow> True | Str s \<Rightarrow> s = [] | DateObj d \<Rightarrow> False | Num n \<Rightarrow> n = 0)"

definition endsWithZ :: "string \<Rightarrow> bool" where
  "endsWithZ s = (s \<noteq> [] \<and> last s = CHR ''Z'')"

text \<open>
  The \<open>Date\<close> that lines 16 to 28 of \<open>utcToLocal\<close> build, with the validity check
  \<open>isNaN(date.getTime())\<close>: a number is a valid time value up to 8.64e15 milliseconds
  either side of the epoch.
\<close>

definition toDate :: "engine \<Rightarrow> ts_input \<Rightarrow> int option" where
  "toDate E t =
     (case t of
        Str s \<Rightarrow> if endsWithZ s then parse_date E s else parse_date E (s @ ''Z'')
      | DateObj d \<Rightarrow> d
      | Num n \<Rightarrow> if \<bar>n\<bar> \<le> 8640000000000000 then Some n else None
      | Missing \<Rightarrow> None)"

definition utcToLocal :: "engine \<Rightarrow> ts_input \<Rightarrow> int option" where
  "utcToLocal E utcTimestamp = (if falsy utcTimestamp then None else toDate E utcTimestamp)"

definition formatTime :: "engine \<Rightarrow> ts_input \<Rightarrow> string" where
  "formatTime E ts = (case utcToLocal E ts of None \<Rightarrow> [] | Some d \<Rightarrow> toLocale E HourMinute12 d)"

definition formatDate :: "engine \<Rightarrow> ts_input \<Rightarrow> string" where
  "formatDate E ts = (case utcToLocal E ts of None \<Rightarrow> [] | Some d \<Rightarrow> toLocale E ShortMonthDayYear d)"

definition formatRelativeTime :: "engine \<Rightarrow> int \<Rightarrow> ts_input \<Rightarrow> string" where
  "formatRelativeTime E now ts =
     (case utcToLocal E ts of
        None \<Rightarrow> []
      | Some d \<Rightarrow>
          let diffInMs = now - d;
              diffInMinutes = diffInMs div (1000 * 60);
              diffInHours = diffInMs div (1000 * 60 * 60);
              diffInDays = diffInMs div (1000 * 60 * 60 * 24)
          in if diffInMinutes < 1 then ''Just now''
             else if diffInMinutes < 60 then show_nat (nat diffInMinutes) @ ''m ago''
             else if diffInHours < 24 then show_nat (nat diffInHours) @ ''h ago''
             else if diffInDays = 1 then ''Yesterday''
             else if diffInDays < 7 then show_nat (nat diffInDays) @ ''d ago''
             else formatDate E ts)"

definition formatDateTime :: "engine \<Rightarrow> ts_input \<Rightarrow> string" where
  "formatDateTime E ts =
     (case utcToLocal E ts of None \<Rightarrow> [] | Some d \<Rightarrow> toLocale E ShortMonthDayYearHourMinute12 d)"

definition getDateSeparator :: "engine \<Rightarrow> int \<Rightarrow> ts_input \<Rightarrow> string" where
  "getDateSeparator E now ts =
     (case utcToLocal E ts of
        None \<Rightarrow> []
      | Some d \<Rightarrow>
          let today = local_midnight E now;
              messageDate = local_midnight E d;
              diffInDays = (today - messageDate) div (1000 * 60 * 60 * 24)
          in if diffInDays = 0 then ''Today''
             else if diffInDays = 1 then ''Yesterday''
             else if diffInDays < 7 then toLocale E WeekdayLong d
             else toLocale E (LongMonthDay (getFullYear E d \<noteq> getFullYear E now)) d)"

definition formatChatTimestamp :: "engine \<Rightarrow> int \<Rightarrow> ts_input \<Rightarrow> string" where
  "formatChatTimestamp E now ts =
     (case utcToLocal E ts of
        None \<Rightarrow> []
      | Some d \<Rightarrow>
          let diffInMs = now - d;
              diffInMinutes = diffInMs div (1000 * 60);
              diffInHours = diffInMs div (1000 * 60 * 60);
              diffInDays = diffInMs div (1000 * 60 * 60 * 24)
          in if diffInMinutes < 1 then ''Just now''
             else if diffInMinutes < 60 then show_nat (nat diffInMinutes) @ ''m ago''
             else if diffInHours < 24 then show_nat (nat diffInHours) @ ''h ago''
             else if diffInDays = 1 then ''Yesterday''
             else if diffInDays < 7 then toLocale E WeekdayShort d
             else toLocale E ShortMonthDay d)"

definition getTimeAgo :: "engine \<Rightarrow> int \<Rightarrow> ts_input \<Rightarrow> string" where
  "getTimeAgo E now ts =
     (case utcToLocal E ts of
        None \<Rightarrow> []
      | Some d \<Rightarrow>
          let diffInSeconds = (now - d) div 1000
          in if diffInSeconds < 60 then ''just now''
             else if diffInSeconds < 3600 then
               (let minutes = diffInSeconds div 60
                in show_nat (nat minutes) @ '' minute'' @ (if minutes > 1 then ''s'' else []) @ '' ago'')
             else if diffInSeconds < 86400 then
               (let hours = diffInSeconds div 3600
                in show_nat (nat hours) @ '' hour'' @ (if hours > 1 then ''s'' else []) @ '' ago'')
             else if diffInSeconds < 604800 then
               (let days = diffInSeconds div 86400
                in show_nat (nat days) @ '' day'' @ (if days > 1 then ''s'' else []) @ '' ago'')
             else formatDate E ts)"

section \<open>Scenario fixtures\<close>

text \<open>
  The actors of the spec's scenario E: the signed-in user, the open conversation, an
  idle chat window, the authoritative message \<open>m42\<close> that the durable call returns
  and its echo on the push channel.
\<close>

definition alice :: user where
  "alice = \<lparr>email = ''alice@example.com''\<rparr>"

definition bob_chat :: chat where
  "bob_chat =
     \<lparr>chat_id = None, other_user_email = ''bob@example.com'', other_user_username = ''bob'',
      other_user_avatar = None, last_message = None, last_message_time = [],
      unread_count = 0, is_online = False\<rparr>"

definition idle_window :: chat_window where
  "idle_window =
     \<lparr>messages = [], loading = False, error = None, replyTo = None,
      isTyping = False, isSending = False\<rparr>"

definition m42 :: message where
  "m42 =
     \<lparr>message_id = ''m42'', sender = ''alice@example.com'', recipient = ''bob@example.com'',
      content = ''hello'', timestamp = ''2024-01-01T10:00:00'', status = ''Sent'',
      reply_to = None, edited = False\<rparr>"

definition echo_m42 :: ws_message where
  "echo_m42 = \<lparr>ws_type = ''new_message'', ws_data = Some (MessageData m42), ws_inline = None\<rparr>"

text \<open>A message from the conversation partner, as pushed to the recipient.\<close>

definition m7 :: message where
  "m7 =
     \<lparr>message_id = ''m7'', sender = ''bob@example.com'', recipient = ''alice@example.com'',
      content = ''hi'', timestamp = ''2024-01-01T09:00:00'', status = ''Sent'',
      reply_to = None, edited = False\<rparr>"

definition push_m7 :: ws_message where
  "push_m7 = \<lparr>ws_type = ''new_message'', ws_data = Some (MessageData m7), ws_inline = None\<rparr>"

text \<open>
  The displayed list after an optimistic send of \<open>hello\<close> at \<open>Date.now() = 7\<close>, with
  the pull response before the echo, and with the echo before the pull response.
\<close>

definition pull_then_echo :: "message list" where
  "pull_then_echo =
     (case handleSendMessage bob_chat alice 7 ''t'' ''hello'' None idle_window of
        (s1, None) \<Rightarrow> messages s1
      | (s1, Some p) \<Rightarrow>
          messages (fst (onPush bob_chat alice True echo_m42
                           (fst (sendResolved bob_chat True p m42 s1)))))"

definition echo_then_pull :: "message list" where
  "echo_then_pull =
     (case handleSendMessage bob_chat alice 7 ''t'' ''hello'' None idle_window of
        (s1, None) \<Rightarrow> messages s1
      | (s1, Some p) \<Rightarrow>
          messages (fst (sendResolved bob_chat True p m42
                           (fst (onPush bob_chat alice True echo_m42 s1)))))"

text \<open>
  A chat window in which the user has chosen \<open>m7\<close> to reply to, and its state after a
  send of \<open>hello\<close> whose durable call fails.
\<close>

definition replying_window :: chat_window where
  "replying_window = idle_window\<lparr>replyTo := Some m7\<rparr>"

definition send_then_fail :: chat_window where
  "send_then_fail =
     (case handleSendMessage bob_chat alice 7 ''t'' ''hello'' (Some ''m7'') replying_window of
        (s1, None) \<Rightarrow> s1
      | (s1, Some p) \<Rightarrow> fst (sendRejected p s1))"

text \<open>Five reconnect attempts in a row, each socket closing before it opens.\<close>

definition five_failures :: "ws_event list" where
  "five_failures = [Close, TimerFires, Close, TimerFires, Close, TimerFires,
                    Close, TimerFires, Close, TimerFires]"

text \<open>
  A dashboard whose server list reports the automated correspondent offline, and a
  presence event that reports it offline once more.
\<close>

definition bot_offline :: chat where
  "bot_offline =
     \<lparr>chat_id = None, other_user_email = ''bot@whatsease.com'',
      other_user_username = ''AI Assistant'', other_user_avatar = None, last_message = None,
      last_message_time = [], unread_count = 0, is_online = False\<rparr>"

definition dash0 :: dashboard where
  "dash0 =
     \<lparr>chats = [bob_chat, bot_offline], selectedChat = Unselected, dash_loading = False,
      searchQuery = [], onlineUsers = {}\<rparr>"

definition bot_goes_offline :: ws_message where
  "bot_goes_offline =
     \<lparr>ws_type = ''user_status_change'',
      ws_data = Some (StatusData ''bot@whatsease.com'' False), ws_inline = None\<rparr>"

text \<open>
  An engine for examples: it parses one ISO string, renders every date as the same
  text, and takes days and years of fixed length from the epoch.
\<close>

definition test_engine :: engine where
  "test_engine =
     \<lparr>parse_date = (\<lambda>s. if s = ''2024-01-01T10:00:00Z'' then Some 1704103200000 else None),
      toLocale = (\<lambda>f d. ''rendered''),
      local_midnight = (\<lambda>d. d - d mod 86400000),
      getFullYear = (\<lambda>d. 1970 + d div 31556952000)\<rparr>"

section \<open>Properties\<close>

subsection \<open>Helper facts\<close>

lemma trim_blank: "(\<forall>ch \<in> set t. is_ws ch) \<Longrightarrow> trim t = []"
proof -
  assume "\<forall>ch \<in> set t. is_ws ch"
  then have "dropWhile is_ws t = []" by (induction t) auto
  then show ?thesis by (simp add: trim_def del: dropWhile_eq_Nil_conv)
qed

lemma trim_Nil_iff: "trim t = [] \<longleftrightarrow> (\<forall>ch \<in> set t. is_ws ch)"
proof
  assume e: "trim t = []"
  show "\<forall>ch \<in> set t. is_ws ch"
  proof (rule ccontr)
    assume "\<not> (\<forall>ch \<in> set t. is_ws ch)"
    then have ne: "dropWhile is_ws t \<noteq> []" by simp
    then have "\<not> is_ws (hd (dropWhile is_ws t))" by (rule hd_dropWhile)
    moreover have "hd (dropWhile is_ws t) \<in> set (rev (dropWhile is_ws t))" using ne by simp
    ultimately have "dropWhile is_ws (rev (dropWhile is_ws t)) \<noteq> []" by auto
    with e show False by (simp add: trim_def)
  qed
qed (rule trim_blank)

lemma filter_fresh: "t \<notin> ids xs \<Longrightarrow> filter (\<lambda>m. message_id m \<noteq> t) xs = xs"
  by (induction xs) (auto simp: ids_def)

lemma map_fresh: "t \<notin> ids xs \<Longrightarrow> map (\<lambda>m. if message_id m = t then n else m) xs = xs"
  by (induction xs) (auto simp: ids_def)

lemma entries_fresh: "t \<notin> ids xs \<Longrightarrow> entries_with_id t xs = []"
  by (induction xs) (auto simp: ids_def entries_with_id_def)

lemma temp_id_placeholder:
  "message_id (optimisticMessage c u now tm text rid) = tempId now"
  by (simp add: optimisticMessage_def)

lemma handleSendMessage_accepts:
  assumes "trim text \<noteq> []" "\<not> isSending s"
  shows "handleSendMessage c u now tm text rid s =
           (s\<lparr>isSending := True, error := None,
              messages := messages s @ [optimisticMessage c u now tm text rid], replyTo := None\<rparr>,
            Some \<lparr>temp_id = tempId now, sent_content = trim text, sent_reply = rid,
                  request = (if other_user_email c = ''bot@whatsease.com''
                             then SendBotMessage \<lparr>md_recipient = other_user_email c, md_content = trim text, md_reply_to = or_null rid\<rparr>
                             else SendMessage \<lparr>md_recipient = other_user_email c, md_content = trim text, md_reply_to = or_null rid\<rparr>)\<rparr>)"
proof -
  have "text \<noteq> []" using assms(1) by (auto simp: trim_def)
  then show ?thesis using assms
    by (simp add: handleSendMessage_def Let_def temp_id_placeholder)
qed

lemma trim_hello: "trim ''hello'' = ''hello''"
  by (simp add: trim_def is_ws_def)

lemma tempId_7: "tempId 7 = ''temp-7''"
  by (simp add: tempId_def show_nat.simps[of 7] digit_char_def)

lemma send_hello:
  "handleSendMessage bob_chat alice 7 ''t'' ''hello'' None idle_window =
     (\<lparr>messages = [\<lparr>message_id = ''temp-7'', sender = ''alice@example.com'',
                      recipient = ''bob@example.com'', content = ''hello'', timestamp = ''t'',
                      status = ''Sending'', reply_to = None, edited = False\<rparr>],
       loading = False, error = None, replyTo = None, isTyping = False, isSending = True\<rparr>,
      Some \<lparr>temp_id = ''temp-7'', sent_content = ''hello'', sent_reply = None,
            request = SendMessage \<lparr>md_recipient = ''bob@example.com'', md_content = ''hello'',
                                   md_reply_to = None\<rparr>\<rparr>)"
  by (simp add: handleSendMessage_def optimisticMessage_def trim_hello tempId_7 bob_chat_def
                alice_def idle_window_def or_null_def Let_def)

subsection \<open>History is reversed for display\<close>

text \<open>
  C8. \<open>loadMessages\<close> displays the exact reversal of the sequence that the history
  interface returned: for every response that carries a message array, the \<open>messages\<close>
  state afterwards is that array reversed (so a newest-first response is shown
  oldest-first), and reversing the display gives the response back.
\<close>

theorem loadMessages_reverses:
  "messages (loadMessages (Resolved (Some (Some ms))) s) = rev ms
   \<and> rev (messages (loadMessages (Resolved (Some (Some ms))) s)) = ms"
  by (simp add: loadMessages_def)

subsection \<open>Blank content is rejected\<close>

text \<open>
  C7. A send whose content is empty or consists of white space only is rejected
  synchronously: \<open>handleSendMessage\<close> issues no durable call, creates no placeholder
  and returns the state unchanged; the same holds one level up, for a press of the send
  button with such a draft, where the input state is unchanged as well.
\<close>

theorem blank_send_rejected:
  assumes "\<forall>ch \<in> set text. is_ws ch"
  shows "handleSendMessage c u now tm text rid s = (s, None)
         \<and> submit c u now tm (inp\<lparr>draft := text\<rparr>, s) = ((inp\<lparr>draft := text\<rparr>, s), None)"
  using trim_blank[OF assms] by (simp add: handleSendMessage_def submit_def handleSend_def)

theorem blank_send_rejected_witness:
  "list_all is_ws '' ''
   \<and> handleSendMessage bob_chat alice 7 ''t'' '' '' None idle_window = (idle_window, None)
   \<and> submit bob_chat alice 7 ''t'' (\<lparr>draft = ''x'', typing = False\<rparr>\<lparr>draft := '' ''\<rparr>, idle_window)
       = ((\<lparr>draft = ''x'', typing = False\<rparr>\<lparr>draft := '' ''\<rparr>, idle_window), None)"
proof -
  have h: "\<forall>ch \<in> set '' ''. is_ws ch" by (simp add: is_ws_def)
  show ?thesis
    using h blank_send_rejected[OF h, of bob_chat alice 7 "''t''" None idle_window
                                  "\<lparr>draft = ''x'', typing = False\<rparr>"]
    by (simp add: list_all_iff)
qed

subsection \<open>The optimistic placeholder\<close>

text \<open>
  C4. A send of content that is not blank, issued while no other send is in flight (the
  input is disabled while \<open>isSending\<close> holds), is accepted: the placeholder is appended
  at the end of the list, its identifier is \<open>temp-\<close> followed by the clock value and
  its status is \<open>Sending\<close>. When the durable call returns \<open>newMessage\<close>, in any later
  list \<open>xs @ [placeholder] @ ys\<close> in which no other entry has the temporary
  identifier, the placeholder and nothing else is replaced, at its position.
\<close>

theorem placeholder_replaced_in_place:
  assumes ne: "trim text \<noteq> []" and idle: "\<not> isSending s"
    and later: "messages s2 = xs @ [optimisticMessage c u now tm text rid] @ ys"
    and fresh: "tempId now \<notin> ids xs \<union> ids ys"
  shows "case handleSendMessage c u now tm text rid s of
           (s1, None) \<Rightarrow> False
         | (s1, Some p) \<Rightarrow>
             messages s1 = messages s @ [optimisticMessage c u now tm text rid]
             \<and> prefix ''temp-'' (message_id (optimisticMessage c u now tm text rid))
             \<and> status (optimisticMessage c u now tm text rid) = ''Sending''
             \<and> temp_id p = message_id (optimisticMessage c u now tm text rid)
             \<and> messages (fst (sendResolved c conn p newMessage s2)) = xs @ [newMessage] @ ys"
proof -
  have a: "tempId now \<notin> ids xs" and b: "tempId now \<notin> ids ys"
    using fresh by auto
  show ?thesis
    unfolding handleSendMessage_accepts[OF ne idle]
    by (simp add: sendResolved_def later map_fresh[OF a] map_fresh[OF b] temp_id_placeholder)
      (simp add: optimisticMessage_def tempId_def)
qed

theorem placeholder_replaced_in_place_witness:
  "trim ''hello'' \<noteq> [] \<and> \<not> isSending idle_window
   \<and> tempId 7 \<notin> ids [m7] \<union> ids [m7\<lparr>message_id := ''m8''\<rparr>]
   \<and> messages (fst (handleSendMessage bob_chat alice 7 ''t'' ''hello'' None idle_window))
       = [optimisticMessage bob_chat alice 7 ''t'' ''hello'' None]
   \<and> message_id (optimisticMessage bob_chat alice 7 ''t'' ''hello'' None) = ''temp-7''
   \<and> messages (fst (sendResolved bob_chat True
         \<lparr>temp_id = ''temp-7'', sent_content = ''hello'', sent_reply = None,
          request = SendMessage \<lparr>md_recipient = ''bob@example.com'', md_content = ''hello'', md_reply_to = None\<rparr>\<rparr>
         m42
         (idle_window\<lparr>messages := [m7] @ [optimisticMessage bob_chat alice 7 ''t'' ''hello'' None]
                                     @ [m7\<lparr>message_id := ''m8''\<rparr>]\<rparr>)))
       = [m7] @ [m42] @ [m7\<lparr>message_id := ''m8''\<rparr>]"
proof -
  have t: "trim ''hello'' = ''hello''" by (simp add: trim_def is_ws_def)
  have ne: "trim ''hello'' \<noteq> []" by (simp add: t)
  have idle: "\<not> isSending idle_window" by (simp add: idle_window_def)
  have id7: "tempId 7 = ''temp-7''"
    by (simp add: tempId_def show_nat.simps[of 7] digit_char_def)
  have fresh: "tempId 7 \<notin> ids [m7] \<union> ids [m7\<lparr>message_id := ''m8''\<rparr>]"
    by (simp add: id7 ids_def m7_def)
  have later: "messages (idle_window\<lparr>messages := [m7] @ [optimisticMessage bob_chat alice 7 ''t'' ''hello'' None]
                                     @ [m7\<lparr>message_id := ''m8''\<rparr>]\<rparr>)
               = [m7] @ [optimisticMessage bob_chat alice 7 ''t'' ''hello'' None] @ [m7\<lparr>message_id := ''m8''\<rparr>]"
    by simp
  show ?thesis
    using placeholder_replaced_in_place[where rid=None and conn=True and newMessage=m42,
            OF ne idle later fresh] ne idle fresh
    by (simp add: handleSendMessage_def optimisticMessage_def t id7 bob_chat_def alice_def idle_window_def
                  or_null_def Let_def split: prod.splits option.splits)
qed

subsection \<open>A failed durable call\<close>

text \<open>
  C5, as the code has it. When the durable call of an accepted send fails, the entries
  that carry the placeholder's temporary identifier, and no others, are removed: in any
  later list \<open>xs @ [placeholder] @ ys\<close> in which no other entry has that identifier the
  result is \<open>xs @ ys\<close>, so that with nothing pushed in between the displayed list is
  the one from before the send. The failure is shown in \<open>error\<close>, \<open>isSending\<close> is
  reset, and the failure branch issues no durable call and no push frame (nothing is
  retried). The rest of the state is not rolled back: from the state before the send, the
  state after the failure differs in \<open>error\<close> and in \<open>replyTo\<close>, which the send
  cleared.
\<close>

theorem failed_send_removes_placeholder:
  assumes ne: "trim text \<noteq> []" and idle: "\<not> isSending s"
    and fresh: "tempId now \<notin> ids (messages s)"
    and later: "messages s2 = xs @ [optimisticMessage c u now tm text rid] @ ys"
    and fresh2: "tempId now \<notin> ids xs \<union> ids ys"
  shows "case handleSendMessage c u now tm text rid s of
           (s1, None) \<Rightarrow> False
         | (s1, Some p) \<Rightarrow>
             temp_id p = tempId now
             \<and> sendRejected p s2
                 = (s2\<lparr>error := Some ''Failed to send message. Please try again.'',
                       messages := xs @ ys, isSending := False\<rparr>, [], [])
             \<and> sendRejected p s1
                 = (s\<lparr>error := Some ''Failed to send message. Please try again.'',
                      replyTo := None\<rparr>, [], [])
             \<and> (case sendRejected p s1 of
                  (s3, durable, pushed) \<Rightarrow>
                    messages s3 = messages s
                    \<and> error s3 = Some ''Failed to send message. Please try again.''
                    \<and> \<not> isSending s3 \<and> durable = [] \<and> pushed = [])"
proof -
  have a: "tempId now \<notin> ids xs" and b: "tempId now \<notin> ids ys" using fresh2 by auto
  show ?thesis
    unfolding handleSendMessage_accepts[OF ne idle]
    apply (simp add: sendRejected_def later filter_fresh[OF fresh] filter_fresh[OF a]
                     filter_fresh[OF b] temp_id_placeholder)
    using idle apply (cases s)
    apply simp
    done
qed

theorem failed_send_removes_placeholder_witness:
  "trim ''hello'' \<noteq> [] \<and> \<not> isSending idle_window
   \<and> tempId 7 \<notin> ids (messages idle_window) \<and> tempId 7 \<notin> ids [] \<union> ids [m7]
   \<and> messages (fst (onPush bob_chat alice True push_m7
                      (fst (handleSendMessage bob_chat alice 7 ''t'' ''hello'' None idle_window))))
       = [] @ [optimisticMessage bob_chat alice 7 ''t'' ''hello'' None] @ [m7]
   \<and> messages (fst (sendRejected
         \<lparr>temp_id = ''temp-7'', sent_content = ''hello'', sent_reply = None,
           request = SendMessage \<lparr>md_recipient = ''bob@example.com'', md_content = ''hello'',
                                  md_reply_to = None\<rparr>\<rparr>
         (fst (onPush bob_chat alice True push_m7
                (fst (handleSendMessage bob_chat alice 7 ''t'' ''hello'' None idle_window))))))
       = [m7]
   \<and> sendRejected
         \<lparr>temp_id = ''temp-7'', sent_content = ''hello'', sent_reply = None,
           request = SendMessage \<lparr>md_recipient = ''bob@example.com'', md_content = ''hello'',
                                  md_reply_to = None\<rparr>\<rparr>
         (fst (handleSendMessage bob_chat alice 7 ''t'' ''hello'' None idle_window))
       = (idle_window\<lparr>error := Some ''Failed to send message. Please try again.'',
                       replyTo := None\<rparr>, [], [])"
proof -
  define P where "P = \<lparr>temp_id = ''temp-7'', sent_content = ''hello'', sent_reply = None,
           request = SendMessage \<lparr>md_recipient = ''bob@example.com'', md_content = ''hello'',
                                  md_reply_to = None\<rparr>\<rparr>"
  define S1 where "S1 = fst (handleSendMessage bob_chat alice 7 ''t'' ''hello'' None idle_window)"
  define S2 where "S2 = fst (onPush bob_chat alice True push_m7 S1)"
  have sh: "handleSendMessage bob_chat alice 7 ''t'' ''hello'' None idle_window = (S1, Some P)"
    by (simp add: S1_def P_def send_hello)
  have ne: "trim ''hello'' \<noteq> []" by (simp add: trim_hello)
  have idle: "\<not> isSending idle_window" by (simp add: idle_window_def)
  have fresh: "tempId 7 \<notin> ids (messages idle_window)" by (simp add: ids_def idle_window_def)
  have fresh2: "tempId 7 \<notin> ids [] \<union> ids [m7]" by (simp add: ids_def tempId_7 m7_def)
  have later: "messages S2 = [] @ [optimisticMessage bob_chat alice 7 ''t'' ''hello'' None] @ [m7]"
    unfolding S2_def S1_def send_hello
    by (simp add: onPush_def messageHandler_def messageData_def push_m7_def m7_def bob_chat_def
                  alice_def optimisticMessage_def tempId_7 trim_hello or_null_def)
  note F = failed_send_removes_placeholder[where c=bob_chat and u=alice and tm="''t''"
             and rid=None, OF ne idle fresh later fresh2, unfolded sh prod.case option.case]
  from F have a: "sendRejected P S2
                 = (S2\<lparr>error := Some ''Failed to send message. Please try again.'',
                       messages := [] @ [m7], isSending := False\<rparr>, [], [])"
    and b: "sendRejected P S1
                 = (idle_window\<lparr>error := Some ''Failed to send message. Please try again.'',
                      replyTo := None\<rparr>, [], [])"
    by blast+
  have a': "messages (fst (sendRejected P S2)) = [m7]" unfolding a by simp
  show ?thesis
    using ne idle fresh fresh2 later a' b unfolding S2_def S1_def P_def by blast
qed

text \<open>
  C5 as stated fails for the state as a whole: the reply selection that the send cleared
  is not restored by the failure.
\<close>

theorem reply_selection_lost_counterexample:
  "replyTo replying_window = Some m7 \<and> replyTo send_then_fail = None
   \<and> messages send_then_fail = messages replying_window
   \<and> send_then_fail \<noteq> replying_window"
proof -
  have a: "replyTo replying_window = Some m7" by (simp add: replying_window_def)
  have s: "send_then_fail =
      \<lparr>messages = [], loading = False,
       error = Some ''Failed to send message. Please try again.'', replyTo = None,
       isTyping = False, isSending = False\<rparr>"
    by (simp add: send_then_fail_def handleSendMessage_def optimisticMessage_def trim_hello
                  replying_window_def idle_window_def sendRejected_def Let_def tempId_7)
  have b: "replyTo send_then_fail = None" unfolding s by simp
  have c: "messages send_then_fail = messages replying_window"
    unfolding s by (simp add: replying_window_def idle_window_def)
  have d: "send_then_fail \<noteq> replying_window" using a b by auto
  from a b c d show ?thesis by blast
qed

subsection \<open>Push events that do not concern the open conversation\<close>

text \<open>
  C9. A push event whose type is neither \<open>new_message\<close> nor \<open>message\<close>, or whose
  message data is not between the signed-in user and the partner of the open
  conversation, leaves the displayed list as it is, and the handler makes no call into
  the context: no \<open>mark_read\<close> frame is sent.
\<close>

theorem unrelated_push_leaves_list:
  assumes "(ws_type w \<noteq> ''new_message'' \<and> ws_type w \<noteq> ''message'')
           \<or> (\<forall>md. messageData w = Some md \<longrightarrow>
                 \<not> ((sender md = other_user_email c \<and> recipient md = email u)
                    \<or> (sender md = email u \<and> recipient md = other_user_email c)))"
  shows "messages (fst (onPush c u g w s)) = messages s
         \<and> snd (onPush c u g w s) = []
         \<and> frames_of sock tm (snd (onPush c u g w s)) = []"
  using assms
  by (auto simp: onPush_def messageHandler_def frames_of_def
           split: option.splits ws_payload.splits sum.splits if_splits)

theorem unrelated_push_leaves_list_witness:
  "ws_type (push_m7\<lparr>ws_type := ''pong''\<rparr>) \<noteq> ''new_message''
   \<and> ws_type (push_m7\<lparr>ws_type := ''pong''\<rparr>) \<noteq> ''message''
   \<and> messages (fst (onPush bob_chat alice True (push_m7\<lparr>ws_type := ''pong''\<rparr>) idle_window)) = []
   \<and> snd (onPush bob_chat alice True (push_m7\<lparr>ws_type := ''pong''\<rparr>) idle_window) = []
   \<and> messageData (push_m7\<lparr>ws_data := Some (MessageData (m7\<lparr>sender := ''carol@example.com''\<rparr>))\<rparr>)
       = Some (m7\<lparr>sender := ''carol@example.com''\<rparr>)
   \<and> messages (fst (onPush bob_chat alice True
        (push_m7\<lparr>ws_data := Some (MessageData (m7\<lparr>sender := ''carol@example.com''\<rparr>))\<rparr>) idle_window)) = []
   \<and> snd (onPush bob_chat alice True
        (push_m7\<lparr>ws_data := Some (MessageData (m7\<lparr>sender := ''carol@example.com''\<rparr>))\<rparr>) idle_window) = []"
proof -
  have h1: "(ws_type (push_m7\<lparr>ws_type := ''pong''\<rparr>) \<noteq> ''new_message''
             \<and> ws_type (push_m7\<lparr>ws_type := ''pong''\<rparr>) \<noteq> ''message'')
           \<or> (\<forall>md. messageData (push_m7\<lparr>ws_type := ''pong''\<rparr>) = Some md \<longrightarrow>
                 \<not> ((sender md = other_user_email bob_chat \<and> recipient md = email alice)
                    \<or> (sender md = email alice \<and> recipient md = other_user_email bob_chat)))"
    by simp
  have h2: "(ws_type (push_m7\<lparr>ws_data := Some (MessageData (m7\<lparr>sender := ''carol@example.com''\<rparr>))\<rparr>) \<noteq> ''new_message''
             \<and> ws_type (push_m7\<lparr>ws_data := Some (MessageData (m7\<lparr>sender := ''carol@example.com''\<rparr>))\<rparr>) \<noteq> ''message'')
           \<or> (\<forall>md. messageData (push_m7\<lparr>ws_data := Some (MessageData (m7\<lparr>sender := ''carol@example.com''\<rparr>))\<rparr>) = Some md \<longrightarrow>
                 \<not> ((sender md = other_user_email bob_chat \<and> recipient md = email alice)
                    \<or> (sender md = email alice \<and> recipient md = other_user_email bob_chat)))"
    by (simp add: messageData_def bob_chat_def alice_def m7_def)
  show ?thesis
    using unrelated_push_leaves_list[OF h1, of True idle_window]
          unrelated_push_leaves_list[OF h2, of True idle_window]
    by (simp add: idle_window_def messageData_def)
qed

subsection \<open>Pull response and push echo of one message\<close>

text \<open>
  The order of the spec's scenario E: the durable call returns before the echo arrives.
  The placeholder is replaced by the authoritative message, and the echo, which carries
  the same identifier, is not appended.
\<close>

lemma pull_before_echo_single_entry:
  assumes ne: "trim text \<noteq> []" and idle: "\<not> isSending s"
    and fresh: "tempId now \<notin> ids (messages s)"
    and new: "message_id nm \<notin> ids (messages s)"
    and echo: "messageData w = Some e" "message_id e = message_id nm"
  shows "case handleSendMessage c u now tm text rid s of
           (s1, None) \<Rightarrow> False
         | (s1, Some p) \<Rightarrow>
             messages (fst (onPush c u g w (fst (sendResolved c conn p nm s1)))) = messages s @ [nm]
             \<and> entries_with_id (message_id nm)
                 (messages (fst (onPush c u g w (fst (sendResolved c conn p nm s1))))) = [nm]"
proof -
  have r: "messages (fst (onPush c u g w s2)) = messages s2" if "nm \<in> set (messages s2)" for s2
    using that echo
    by (auto simp: onPush_def messageHandler_def split: option.splits ws_payload.splits sum.splits if_splits)
  show ?thesis
    unfolding handleSendMessage_accepts[OF ne idle]
    apply (simp add: r sendResolved_def map_fresh[OF fresh] temp_id_placeholder)
    apply (simp add: entries_with_id_def entries_fresh[OF new, unfolded entries_with_id_def])
    done
qed

lemma scenario_E:
  "trim ''hello'' \<noteq> [] \<and> \<not> isSending idle_window \<and> tempId 7 \<notin> ids (messages idle_window)
   \<and> message_id m42 \<notin> ids (messages idle_window)
   \<and> messageData echo_m42 = Some m42
   \<and> pull_then_echo = [m42]
   \<and> entries_with_id ''m42'' pull_then_echo = [m42]"
proof -
  have ne: "trim ''hello'' \<noteq> []" by (simp add: trim_hello)
  have idle: "\<not> isSending idle_window" by (simp add: idle_window_def)
  have fresh: "tempId 7 \<notin> ids (messages idle_window)" by (simp add: ids_def idle_window_def)
  have new: "message_id m42 \<notin> ids (messages idle_window)" by (simp add: ids_def idle_window_def)
  have echo: "messageData echo_m42 = Some m42" by (simp add: messageData_def echo_m42_def)
  have mid: "message_id m42 = ''m42''" by (simp add: m42_def)
  define P where "P = \<lparr>temp_id = ''temp-7'', sent_content = ''hello'', sent_reply = None,
          request = SendMessage \<lparr>md_recipient = ''bob@example.com'', md_content = ''hello'',
                                 md_reply_to = None\<rparr>\<rparr>"
  define S1 where "S1 = fst (handleSendMessage bob_chat alice 7 ''t'' ''hello'' None idle_window)"
  have sh: "handleSendMessage bob_chat alice 7 ''t'' ''hello'' None idle_window = (S1, Some P)"
    by (simp add: S1_def P_def send_hello)
  have pe: "pull_then_echo =
      messages (fst (onPush bob_chat alice True echo_m42 (fst (sendResolved bob_chat True P m42 S1))))"
    unfolding pull_then_echo_def sh by simp
  note F = pull_before_echo_single_entry[where c=bob_chat and u=alice and tm="''t''" and rid=None
              and g=True and conn=True, OF ne idle fresh new echo refl,
              unfolded sh prod.case option.case, folded pe]
  from F have a: "pull_then_echo = messages idle_window @ [m42]"
    and b: "entries_with_id (message_id m42) pull_then_echo = [m42]" by blast+
  have a': "pull_then_echo = [m42]" using a by (simp add: idle_window_def)
  have b': "entries_with_id ''m42'' pull_then_echo = [m42]" using b by (simp only: mid)
  show ?thesis
    using ne idle fresh new echo a' b' by blast
qed

text \<open>
  C1. In the other order the list ends with two entries for the one message. The echo of
  \<open>m42\<close> arrives while the placeholder \<open>temp-7\<close> is in flight: the push handler
  compares identifiers only, finds none equal to \<open>m42\<close> and appends the echo; the pull
  response then replaces the placeholder by \<open>m42\<close> without looking at the rest of the
  list.
\<close>

theorem echo_before_pull_duplicates:
  "echo_then_pull = [m42, m42] \<and> length (entries_with_id ''m42'' echo_then_pull) = 2"
proof -
  have e: "echo_then_pull = [m42, m42]"
    unfolding echo_then_pull_def send_hello
    by (simp add: onPush_def messageHandler_def messageData_def echo_m42_def sendResolved_def
                  m42_def bob_chat_def alice_def)
  show ?thesis unfolding e by (simp add: entries_with_id_def m42_def)
qed

subsection \<open>What the recipient's client acknowledges\<close>

text \<open>
  C2, as the code has it. Whatever event arrives, every frame the chat window's push
  handler sends is a \<open>mark_read\<close> frame: it never acknowledges delivery. On a new
  message from the partner of the open conversation to the signed-in user it sends
  exactly one frame, at once: \<open>mark_read\<close> with the message's identifier, scoped to
  that partner. On every other push event (another type, another pair, the user's own
  echo) it makes no call and sends no frame: the calls and the frames of the handler are
  given in full.
\<close>

theorem receipt_is_marked_read:
  "f_type ` set (frames_of sock tm (snd (onPush c u g w s))) \<subseteq> {''mark_read''}
   \<and> ((ws_type w = ''new_message'' \<or> ws_type w = ''message'')
        \<and> messageData w = Some md
        \<and> sender md = other_user_email c \<and> recipient md = email u
      \<longrightarrow> snd (onPush c u True w s) = [MarkAsRead (message_id md) (other_user_email c)]
          \<and> frames_of True tm (snd (onPush c u True w s))
              = [\<lparr>f_type = ''mark_read'',
                   f_data = MarkReadOut (message_id md) (other_user_email c),
                   f_timestamp = tm\<rparr>])
   \<and> snd (onPush c u g w s)
       = (case messageData w of
            None \<Rightarrow> []
          | Some d \<Rightarrow>
              if (ws_type w = ''new_message'' \<or> ws_type w = ''message'')
                 \<and> sender d = other_user_email c \<and> recipient d = email u \<and> g
              then [MarkAsRead (message_id d) (other_user_email c)] else [])
   \<and> frames_of sock tm (snd (onPush c u g w s))
       = (case messageData w of
            None \<Rightarrow> []
          | Some d \<Rightarrow>
              if (ws_type w = ''new_message'' \<or> ws_type w = ''message'')
                 \<and> sender d = other_user_email c \<and> recipient d = email u \<and> g \<and> sock
              then [\<lparr>f_type = ''mark_read'',
                     f_data = MarkReadOut (message_id d) (other_user_email c),
                     f_timestamp = tm\<rparr>] else [])"
proof -
  have calls: "snd (onPush c u g w s)
       = (case messageData w of
            None \<Rightarrow> []
          | Some d \<Rightarrow>
              if (ws_type w = ''new_message'' \<or> ws_type w = ''message'')
                 \<and> sender d = other_user_email c \<and> recipient d = email u \<and> g
              then [MarkAsRead (message_id d) (other_user_email c)] else [])" for g
    by (auto simp: onPush_def messageHandler_def messageData_def
             split: option.splits ws_payload.splits sum.splits if_splits)
  have frames: "frames_of sock tm (snd (onPush c u g w s))
       = (case messageData w of
            None \<Rightarrow> []
          | Some d \<Rightarrow>
              if (ws_type w = ''new_message'' \<or> ws_type w = ''message'')
                 \<and> sender d = other_user_email c \<and> recipient d = email u \<and> g \<and> sock
              then [\<lparr>f_type = ''mark_read'',
                     f_data = MarkReadOut (message_id d) (other_user_email c),
                     f_timestamp = tm\<rparr>] else [])" for g sock
    unfolding calls
    by (auto simp: frames_of_def markAsRead_def sendMessage_def split: option.splits)
  have 1: "f_type ` set (frames_of sock tm (snd (onPush c u g w s))) \<subseteq> {''mark_read''}"
    unfolding frames by (auto split: option.splits)
  have 2: "(ws_type w = ''new_message'' \<or> ws_type w = ''message'')
        \<and> messageData w = Some md
        \<and> sender md = other_user_email c \<and> recipient md = email u
      \<longrightarrow> snd (onPush c u True w s) = [MarkAsRead (message_id md) (other_user_email c)]
          \<and> frames_of True tm (snd (onPush c u True w s))
              = [\<lparr>f_type = ''mark_read'',
                   f_data = MarkReadOut (message_id md) (other_user_email c),
                   f_timestamp = tm\<rparr>]"
    unfolding calls by (simp add: frames_of_def markAsRead_def sendMessage_def)
  from 1 2 calls frames show ?thesis by blast
qed

theorem receipt_is_marked_read_witness:
  "ws_type push_m7 = ''new_message'' \<and> messageData push_m7 = Some m7
   \<and> sender m7 = other_user_email bob_chat \<and> recipient m7 = email alice
   \<and> snd (onPush bob_chat alice True push_m7 idle_window) = [MarkAsRead ''m7'' ''bob@example.com'']
   \<and> frames_of True ''t'' (snd (onPush bob_chat alice True push_m7 idle_window))
       = [\<lparr>f_type = ''mark_read'', f_data = MarkReadOut ''m7'' ''bob@example.com'',
            f_timestamp = ''t''\<rparr>]
   \<and> messageData echo_m42 = Some m42
   \<and> snd (onPush bob_chat alice True echo_m42 idle_window) = []
   \<and> frames_of True ''t'' (snd (onPush bob_chat alice True echo_m42 idle_window)) = []"
proof -
  have h: "(ws_type push_m7 = ''new_message'' \<or> ws_type push_m7 = ''message'')
        \<and> messageData push_m7 = Some m7
        \<and> sender m7 = other_user_email bob_chat \<and> recipient m7 = email alice"
    by (simp add: push_m7_def messageData_def m7_def bob_chat_def alice_def)
  have i: "message_id m7 = ''m7''" "other_user_email bob_chat = ''bob@example.com''"
    by (simp_all add: m7_def bob_chat_def)
  note A = receipt_is_marked_read[of True "''t''" bob_chat alice True push_m7 idle_window m7]
  from A h
  have a: "snd (onPush bob_chat alice True push_m7 idle_window)
          = [MarkAsRead (message_id m7) (other_user_email bob_chat)]
        \<and> frames_of True ''t'' (snd (onPush bob_chat alice True push_m7 idle_window))
              = [\<lparr>f_type = ''mark_read'',
                   f_data = MarkReadOut (message_id m7) (other_user_email bob_chat),
                   f_timestamp = ''t''\<rparr>]"
    by blast
  have t: "ws_type push_m7 = ''new_message''" by (simp add: push_m7_def)
  have e: "messageData echo_m42 = Some m42" by (simp add: messageData_def echo_m42_def)
  have own: "sender m42 \<noteq> other_user_email bob_chat" by (simp add: m42_def bob_chat_def)
  note B = receipt_is_marked_read[of True "''t''" bob_chat alice True echo_m42 idle_window m42]
  from B have b1: "snd (onPush bob_chat alice True echo_m42 idle_window)
       = (case messageData echo_m42 of
            None \<Rightarrow> []
          | Some d \<Rightarrow>
              if (ws_type echo_m42 = ''new_message'' \<or> ws_type echo_m42 = ''message'')
                 \<and> sender d = other_user_email bob_chat \<and> recipient d = email alice \<and> True
              then [MarkAsRead (message_id d) (other_user_email bob_chat)] else [])"
    by blast
  have b: "snd (onPush bob_chat alice True echo_m42 idle_window) = []"
    unfolding b1 e using own by simp
  have b': "frames_of True ''t'' (snd (onPush bob_chat alice True echo_m42 idle_window)) = []"
    unfolding b by (simp add: frames_of_def)
  from a t h e b b' show ?thesis unfolding i by blast
qed

text \<open>
  C2 as stated fails: merely receiving \<open>m7\<close> from the partner makes the client ask
  for the Read transition.
\<close>

theorem read_on_receipt_counterexample:
  "onPush bob_chat alice True push_m7 idle_window
     = (idle_window\<lparr>messages := [m7]\<rparr>, [MarkAsRead ''m7'' ''bob@example.com''])
   \<and> frames_of True ''t'' [MarkAsRead ''m7'' ''bob@example.com'']
     = [\<lparr>f_type = ''mark_read'', f_data = MarkReadOut ''m7'' ''bob@example.com'',
          f_timestamp = ''t''\<rparr>]"
  by (simp add: onPush_def messageHandler_def messageData_def push_m7_def m7_def bob_chat_def
                alice_def idle_window_def frames_of_def markAsRead_def sendMessage_def)

subsection \<open>Reconnecting\<close>

lemma mounted_single: "single_connection (mounted authed)"
  by (simp add: single_connection_def mounted_def connect_def maxReconnectAttempts_def)

lemma no_timer_while_live: "(l::nat) + length ts \<le> Suc 0 \<Longrightarrow> 0 < l \<Longrightarrow> ts = []"
  by (cases ts) auto

lemma step_single:
  assumes "single_connection s" "step authed e s = Some s'"
  shows "single_connection s'"
proof (cases e)
  case Open
  with assms show ?thesis
    by (auto simp: single_connection_def onopen_def maxReconnectAttempts_def split: if_splits)
next
  case Close
  with assms show ?thesis
    by (auto simp: single_connection_def onclose_def Let_def maxReconnectAttempts_def
             split: if_splits dest: no_timer_while_live)
next
  case TimerFires
  with assms show ?thesis
    by (cases "timers s")
       (auto simp: single_connection_def reconnectTimeout_def connect_def maxReconnectAttempts_def
             split: if_splits)
qed

lemma run_single:
  "single_connection s \<Longrightarrow> run authed es s = Some s' \<Longrightarrow> single_connection s'"
proof (induction es arbitrary: s)
  case Nil
  then show ?case by simp
next
  case (Cons e es)
  then show ?case by (auto split: option.splits dest: step_single)
qed

lemma gave_up_stays:
  assumes "single_connection s" "reconnectAttempts s = maxReconnectAttempts"
    "Open \<notin> set es" "run authed es s = Some s'"
  shows "timers s' = [] \<and> reconnectAttempts s' = maxReconnectAttempts"
  using assms
proof (induction es arbitrary: s)
  case Nil
  then show ?case by (auto simp: single_connection_def)
next
  case (Cons e es)
  from Cons.prems obtain s1 where s1: "step authed e s = Some s1" "run authed es s1 = Some s'"
    by (auto split: option.splits)
  have t: "timers s = []" using Cons.prems(1,2) by (auto simp: single_connection_def)
  have e: "e = Close" using Cons.prems(3) s1(1) t by (cases e) auto
  have "reconnectAttempts s1 = maxReconnectAttempts"
    using s1(1) e Cons.prems(2) by (auto simp: onclose_def Let_def split: if_splits)
  moreover have "single_connection s1" using step_single[OF Cons.prems(1) s1(1)] .
  moreover have "Open \<notin> set es" using Cons.prems(3) by simp
  ultimately show ?case using Cons.IH s1(2) by blast
qed

text \<open>
  C3. In every state that the provider reaches from mounting through socket opens,
  socket closes and timer expiries: the attempt counter is at most the bound, which is
  5; a successful open resets it to 0; every pending reconnect has the one delay of
  3000 ms and at most one is pending; a close below the bound schedules one reconnect
  with that delay; and once the counter is at the bound, no reconnect is pending and
  none is scheduled by anything that follows, unless a socket opens (which resets the
  counter) or the provider is mounted anew.
\<close>

theorem reconnect_bounded:
  assumes "run authed es (mounted authed) = Some s"
  shows "reconnectAttempts s \<le> maxReconnectAttempts
         \<and> maxReconnectAttempts = 5
         \<and> reconnectAttempts (onopen s) = 0
         \<and> set (timers s) \<subseteq> {3000} \<and> length (timers s) \<le> 1
         \<and> (reconnectAttempts s < maxReconnectAttempts \<longrightarrow> timers (onclose s) = timers s @ [3000])
         \<and> (reconnectAttempts s = maxReconnectAttempts \<longrightarrow>
               (\<forall>es' s'. Open \<notin> set es' \<and> run authed es' s = Some s'
                  \<longrightarrow> timers s' = [] \<and> reconnectAttempts s' = maxReconnectAttempts))"
proof -
  have i: "single_connection s" using run_single[OF mounted_single assms] .
  have "reconnectAttempts s = maxReconnectAttempts \<longrightarrow>
          (\<forall>es' s'. Open \<notin> set es' \<and> run authed es' s = Some s'
             \<longrightarrow> timers s' = [] \<and> reconnectAttempts s' = maxReconnectAttempts)"
    using gave_up_stays[OF i] by blast
  moreover have "reconnectAttempts s \<le> maxReconnectAttempts" "set (timers s) \<subseteq> {3000}"
    "length (timers s) \<le> 1"
    using i by (auto simp: single_connection_def)
  moreover have "reconnectAttempts (onopen s) = 0" by (simp add: onopen_def)
  moreover have "reconnectAttempts s < maxReconnectAttempts \<longrightarrow> timers (onclose s) = timers s @ [3000]"
    by (simp add: onclose_def Let_def)
  moreover have "maxReconnectAttempts = 5" by (simp add: maxReconnectAttempts_def)
  ultimately show ?thesis by blast
qed


theorem reconnect_bounded_witness:
  "run True five_failures (mounted True)
     = Some \<lparr>isConnected = False, reconnectAttempts = 5, timers = [], live = 1\<rparr>
   \<and> reconnectAttempts (onopen \<lparr>isConnected = False, reconnectAttempts = 5, timers = [], live = 1\<rparr>) = 0
   \<and> run True [Close] \<lparr>isConnected = False, reconnectAttempts = 5, timers = [], live = 1\<rparr>
     = Some \<lparr>isConnected = False, reconnectAttempts = 5, timers = [], live = 0\<rparr>
   \<and> timers \<lparr>isConnected = False, reconnectAttempts = 5, timers = [], live = 0\<rparr> = []
   \<and> run True [] (mounted True) = Some (mounted True)
   \<and> reconnectAttempts (mounted True) < maxReconnectAttempts
   \<and> timers (onclose (mounted True)) = [3000]"
proof -
  define S5 where "S5 = \<lparr>isConnected = False, reconnectAttempts = 5, timers = [], live = 1\<rparr>"
  define S6 where "S6 = \<lparr>isConnected = False, reconnectAttempts = 5, timers = [], live = 0\<rparr>"
  have r5: "run True five_failures (mounted True) = Some S5"
    by (simp add: S5_def five_failures_def mounted_def connect_def onclose_def
                  reconnectTimeout_def maxReconnectAttempts_def Let_def)
  have r6: "run True [Close] S5 = Some S6"
    by (simp add: S5_def S6_def onclose_def maxReconnectAttempts_def Let_def)
  have at5: "reconnectAttempts S5 = maxReconnectAttempts"
    by (simp add: S5_def maxReconnectAttempts_def)
  have no: "Open \<notin> set [Close]" by simp
  note B5 = reconnect_bounded[OF r5]
  from B5 have o: "reconnectAttempts (onopen S5) = 0" by blast
  from B5 at5 no r6 have g: "timers S6 = []" by blast
  have r0: "run True [] (mounted True) = Some (mounted True)" by simp
  have lt: "reconnectAttempts (mounted True) < maxReconnectAttempts"
    by (simp add: mounted_def connect_def maxReconnectAttempts_def)
  note B0 = reconnect_bounded[OF r0]
  from B0 lt have "timers (onclose (mounted True)) = timers (mounted True) @ [3000]" by blast
  then have sch: "timers (onclose (mounted True)) = [3000]"
    by (simp add: mounted_def connect_def)
  show ?thesis
    using r5 o r6 g r0 lt sch unfolding S5_def S6_def by blast
qed

subsection \<open>The automated correspondent in the chat list\<close>

lemma str_includes_empty: "str_includes s []"
  by (cases s) auto

lemma matchesSearch_empty: "matchesSearch [] c"
  by (simp add: matchesSearch_def toLowerCase_def str_includes_empty)

lemma processedChats_shape:
  "\<exists>b. processedChats tm cs = b # filter (\<lambda>c. other_user_email c \<noteq> ''bot@whatsease.com'') cs
       \<and> other_user_email b = BOT_EMAIL \<and> is_online b"
proof (cases "find (\<lambda>c. other_user_email c = ''bot@whatsease.com'') cs")
  case None
  then show ?thesis
    by (simp add: processedChats_def Let_def defaultBotChat_def BOT_EMAIL_def)
next
  case (Some b)
  then have "other_user_email b = ''bot@whatsease.com''"
    by (auto simp: find_Some_iff)
  with Some show ?thesis
    by (simp add: processedChats_def Let_def BOT_EMAIL_def)
qed

lemma bot_entries_regular1:
  "bot_entries (filter (\<lambda>c. other_user_email c \<noteq> ''bot@whatsease.com'' \<and> P c) cs) = []"
  by (induction cs) (auto simp: bot_entries_def BOT_EMAIL_def)

lemma bot_entries_regular0:
  "bot_entries (filter (\<lambda>c. other_user_email c \<noteq> ''bot@whatsease.com'') cs) = []"
  by (induction cs) (auto simp: bot_entries_def BOT_EMAIL_def)

text \<open>
  C6, as the code has it. Whatever the server's list and whatever presence events
  arrived: the list that ChatList builds (\<open>processedChats\<close>) starts with the automated
  correspondent, online, and contains it nowhere else; with an empty search query that
  list is what is rendered; under any search query the rendered list contains the
  automated correspondent at most once, only as its first entry and only online; and
  selecting the automated correspondent's chat selects it as online.
\<close>

theorem bot_on_top_and_online:
  "(case processedChats tm (chats (statusHandlers evs d)) of
      [] \<Rightarrow> False
    | b # rest \<Rightarrow> other_user_email b = BOT_EMAIL \<and> is_online b \<and> bot_entries rest = [])
   \<and> filteredChats tm [] (chats (statusHandlers evs d)) = processedChats tm (chats (statusHandlers evs d))
   \<and> (case filteredChats tm q (chats (statusHandlers evs d)) of
         [] \<Rightarrow> True
       | b # rest \<Rightarrow> bot_entries rest = [] \<and> (other_user_email b = BOT_EMAIL \<longrightarrow> is_online b))
   \<and> (other_user_email c = BOT_EMAIL \<longrightarrow>
         selectedChat (handleChatSelect c (statusHandlers evs d)) = Selected (c\<lparr>is_online := True\<rparr>))"
proof -
  obtain b where b: "processedChats tm (chats (statusHandlers evs d))
       = b # filter (\<lambda>c. other_user_email c \<noteq> ''bot@whatsease.com'') (chats (statusHandlers evs d))"
     "other_user_email b = BOT_EMAIL" "is_online b"
    using processedChats_shape by blast
  have 1: "case processedChats tm (chats (statusHandlers evs d)) of
      [] \<Rightarrow> False
    | b # rest \<Rightarrow> other_user_email b = BOT_EMAIL \<and> is_online b \<and> bot_entries rest = []"
    by (simp add: b bot_entries_regular0)
  have 2: "filteredChats tm [] (chats (statusHandlers evs d)) = processedChats tm (chats (statusHandlers evs d))"
    by (simp add: filteredChats_def matchesSearch_empty)
  have 3: "case filteredChats tm q (chats (statusHandlers evs d)) of
         [] \<Rightarrow> True
       | b # rest \<Rightarrow> bot_entries rest = [] \<and> (other_user_email b = BOT_EMAIL \<longrightarrow> is_online b)"
  proof (cases "matchesSearch q b")
    case True
    then show ?thesis by (simp add: filteredChats_def b bot_entries_regular1)
  next
    case False
    then have f: "filteredChats tm q (chats (statusHandlers evs d))
        = filter (matchesSearch q) (filter (\<lambda>c. other_user_email c \<noteq> ''bot@whatsease.com'') (chats (statusHandlers evs d)))"
      by (simp add: filteredChats_def b)
    have nb: "\<forall>x \<in> set (filteredChats tm q (chats (statusHandlers evs d))). other_user_email x \<noteq> BOT_EMAIL"
      unfolding f by (auto simp: BOT_EMAIL_def)
    show ?thesis
    proof (cases "filteredChats tm q (chats (statusHandlers evs d))")
      case Nil
      then show ?thesis by simp
    next
      case (Cons x xs)
      with nb have "other_user_email x \<noteq> BOT_EMAIL" "\<forall>y \<in> set xs. other_user_email y \<noteq> BOT_EMAIL" by auto
      then show ?thesis using Cons by (simp add: bot_entries_def filter_empty_conv)
    qed
  qed
  have 4: "other_user_email c = BOT_EMAIL \<longrightarrow>
         selectedChat (handleChatSelect c (statusHandlers evs d)) = Selected (c\<lparr>is_online := True\<rparr>)"
    by (simp add: handleChatSelect_def currentOnline_def BOT_EMAIL_def)
  from 1 2 3 4 show ?thesis by blast
qed

theorem bot_on_top_and_online_witness:
  "other_user_email bot_offline = BOT_EMAIL
   \<and> selectedChat (handleChatSelect bot_offline (statusHandlers [bot_goes_offline] dash0))
       = Selected (bot_offline\<lparr>is_online := True\<rparr>)
   \<and> filteredChats ''t'' ''ai'' (chats (statusHandlers [bot_goes_offline] dash0))
       = [bot_offline\<lparr>is_online := True\<rparr>]
   \<and> is_online (bot_offline\<lparr>is_online := True\<rparr>)"
proof -
  have h: "other_user_email bot_offline = BOT_EMAIL"
    by (simp add: bot_offline_def BOT_EMAIL_def)
  have f: "filteredChats ''t'' ''ai'' (chats (statusHandlers [bot_goes_offline] dash0))
       = [bot_offline\<lparr>is_online := True\<rparr>]"
    by code_simp
  note B = bot_on_top_and_online[of "''t''" "[bot_goes_offline]" dash0 "''ai''" bot_offline]
  from B h have s: "selectedChat (handleChatSelect bot_offline (statusHandlers [bot_goes_offline] dash0))
       = Selected (bot_offline\<lparr>is_online := True\<rparr>)" by blast
  from B have "case filteredChats ''t'' ''ai'' (chats (statusHandlers [bot_goes_offline] dash0)) of
         [] \<Rightarrow> True
       | b # rest \<Rightarrow> bot_entries rest = [] \<and> (other_user_email b = BOT_EMAIL \<longrightarrow> is_online b)"
    by blast
  then have o: "is_online (bot_offline\<lparr>is_online := True\<rparr>)"
    unfolding f using h by simp
  from h s f o show ?thesis by blast
qed

text \<open>
  C6 as stated fails for the rendered list: a search for \<open>bob\<close> leaves the
  conversation with bob and drops the automated correspondent.
\<close>

theorem search_hides_bot_counterexample:
  "filteredChats ''t'' ''bob'' [bob_chat, bot_offline] = [bob_chat]
   \<and> bot_entries (filteredChats ''t'' ''bob'' [bob_chat, bot_offline]) = []"
  by code_simp

subsection \<open>Timestamp utilities\<close>

lemma formatters_empty:
  assumes "utcToLocal E t = None"
  shows "formatTime E t = []" "formatDate E t = []" "formatRelativeTime E now t = []"
    "formatDateTime E t = []" "formatChatTimestamp E now t = []" "getTimeAgo E now t = []"
    "getDateSeparator E now t = []"
  using assms
  by (simp_all add: formatTime_def formatDate_def formatRelativeTime_def formatDateTime_def
                    formatChatTimestamp_def getTimeAgo_def getDateSeparator_def)

text \<open>
  C10, as the code has it. \<open>utcToLocal\<close> returns \<open>null\<close> exactly when its argument is
  falsy (\<open>null\<close>, \<open>undefined\<close>, the empty string, the number 0) or the date built from
  it is invalid; a non-empty string without a trailing \<open>Z\<close> is parsed with \<open>Z\<close>
  appended, one with a trailing \<open>Z\<close> as it is; and whenever \<open>utcToLocal\<close> returns
  \<open>null\<close>, each of the seven formatting functions returns the empty string.
\<close>

theorem timestamp_utilities_total:
  "(utcToLocal E t = None \<longleftrightarrow> falsy t \<or> toDate E t = None)
   \<and> (s \<noteq> [] \<and> \<not> endsWithZ s \<longrightarrow> utcToLocal E (Str s) = parse_date E (s @ ''Z''))
   \<and> (endsWithZ s \<longrightarrow> utcToLocal E (Str s) = parse_date E s)
   \<and> (utcToLocal E t = None \<longrightarrow>
         formatTime E t = [] \<and> formatDate E t = [] \<and> formatRelativeTime E now t = []
         \<and> formatDateTime E t = [] \<and> formatChatTimestamp E now t = []
         \<and> getTimeAgo E now t = [] \<and> getDateSeparator E now t = [])"
proof -
  have 1: "utcToLocal E t = None \<longleftrightarrow> falsy t \<or> toDate E t = None"
    by (simp add: utcToLocal_def)
  have 2: "s \<noteq> [] \<and> \<not> endsWithZ s \<longrightarrow> utcToLocal E (Str s) = parse_date E (s @ ''Z'')"
    by (simp add: utcToLocal_def falsy_def toDate_def)
  have 3: "endsWithZ s \<longrightarrow> utcToLocal E (Str s) = parse_date E s"
    by (auto simp: utcToLocal_def falsy_def toDate_def endsWithZ_def)
  have 4: "utcToLocal E t = None \<longrightarrow>
         formatTime E t = [] \<and> formatDate E t = [] \<and> formatRelativeTime E now t = []
         \<and> formatDateTime E t = [] \<and> formatChatTimestamp E now t = []
         \<and> getTimeAgo E now t = [] \<and> getDateSeparator E now t = []"
    using formatters_empty by blast
  from 1 2 3 4 show ?thesis by blast
qed

theorem timestamp_utilities_total_witness:
  "utcToLocal test_engine (Str ''yesterday'') = None
   \<and> formatTime test_engine (Str ''yesterday'') = []
   \<and> getTimeAgo test_engine 1704106800000 (Str ''yesterday'') = []
   \<and> utcToLocal test_engine Missing = None
   \<and> formatRelativeTime test_engine 1704106800000 Missing = []
   \<and> \<not> endsWithZ ''2024-01-01T10:00:00''
   \<and> utcToLocal test_engine (Str ''2024-01-01T10:00:00'') = Some 1704103200000
   \<and> endsWithZ ''2024-01-01T10:00:00Z''
   \<and> utcToLocal test_engine (Str ''2024-01-01T10:00:00Z'') = Some 1704103200000"
proof -
  have p: "parse_date test_engine ''2024-01-01T10:00:00Z'' = Some 1704103200000"
    by (simp add: test_engine_def)
  have n1: "utcToLocal test_engine (Str ''yesterday'') = None"
    by (simp add: utcToLocal_def falsy_def toDate_def endsWithZ_def test_engine_def)
  have n2: "utcToLocal test_engine Missing = None"
    by (simp add: utcToLocal_def falsy_def)
  have z1: "''2024-01-01T10:00:00'' \<noteq> [] \<and> \<not> endsWithZ ''2024-01-01T10:00:00''"
    by (simp add: endsWithZ_def)
  have z2: "endsWithZ ''2024-01-01T10:00:00Z''" by (simp add: endsWithZ_def)
  note A = timestamp_utilities_total[of test_engine "Str ''yesterday''" "''2024-01-01T10:00:00''" 1704106800000]
  note B = timestamp_utilities_total[of test_engine Missing "''2024-01-01T10:00:00Z''" 1704106800000]
  from A n1 have a: "formatTime test_engine (Str ''yesterday'') = []"
    "getTimeAgo test_engine 1704106800000 (Str ''yesterday'') = []" by blast+
  from B n2 have b: "formatRelativeTime test_engine 1704106800000 Missing = []" by blast
  from A z1 have c: "utcToLocal test_engine (Str ''2024-01-01T10:00:00'')
        = parse_date test_engine (''2024-01-01T10:00:00'' @ ''Z'')" by blast
  from B z2 have d: "utcToLocal test_engine (Str ''2024-01-01T10:00:00Z'')
        = parse_date test_engine ''2024-01-01T10:00:00Z''" by blast
  have c': "utcToLocal test_engine (Str ''2024-01-01T10:00:00'') = Some 1704103200000"
    using c p by simp
  have d': "utcToLocal test_engine (Str ''2024-01-01T10:00:00Z'') = Some 1704103200000"
    using d p by simp
  from n1 a n2 b z1 c' z2 d' show ?thesis by blast
qed

text \<open>
  C10 as stated fails at the number 0: it is not a missing argument and the date built
  from it is valid (the epoch), yet \<open>utcToLocal\<close> returns \<open>null\<close>.
\<close>

theorem zero_is_not_missing_counterexample:
  "utcToLocal test_engine (Num 0) = None \<and> toDate test_engine (Num 0) = Some 0"
  by (simp add: utcToLocal_def falsy_def toDate_def)

end
